theory Spec2Isabelle
  imports Complex_Main "HOL-Library.Word"
begin

section \<open>The Go library functions the collector calls\<close>

text \<open>
  The collector (mambo.go, and its older copy src/mambo.go) builds its strings with
  \<open>fmt.Sprint\<close>, splits messages with \<open>strings.Split\<close> and reads integers with
  \<open>strconv\<close>. These are written out here as the Go library computes them, so that the
  functions of the collector below can be stated over them.
\<close>

subsection \<open>fmt.Sprint\<close>

text \<open>An operand of \<open>fmt.Sprint\<close>: the collector passes strings and ints only.\<close>

datatype operand = S string | I int

definition digit :: "nat \<Rightarrow> char" where
  "digit d = char_of (48 + d)"

fun decimal :: "nat \<Rightarrow> string" where
  "decimal n = (if n < 10 then [digit n] else decimal (n div 10) @ [digit (n mod 10)])"

declare decimal.simps [simp del]

text \<open>The default format of an int: a minus sign when negative, then the decimal digits.\<close>

definition itoa :: "int \<Rightarrow> string" where
  "itoa i = (if i < 0 then CHR ''-'' # decimal (nat (- i)) else decimal (nat i))"

fun isString :: "operand \<Rightarrow> bool" where
  "isString (S s) = True"
| "isString (I i) = False"

fun printArg :: "operand \<Rightarrow> string" where
  "printArg (S s) = s"
| "printArg (I i) = itoa i"

text \<open>
  The loop of \<open>doPrint\<close>: a space is written between two operands when neither is a
  string; \<open>argNum\<close> is the index of the operand and \<open>prevString\<close> tells whether the
  operand before it was a string.
\<close>

fun doPrint :: "nat \<Rightarrow> bool \<Rightarrow> operand list \<Rightarrow> string" where
  "doPrint argNum prevString [] = []"
| "doPrint argNum prevString (arg # a) =
     (if argNum > 0 \<and> \<not> isString arg \<and> \<not> prevString then '' '' else [])
       @ printArg arg @ doPrint (Suc argNum) (isString arg) a"

definition Sprint :: "operand list \<Rightarrow> string" where
  "Sprint a = doPrint 0 False a"

subsection \<open>strings.Split on the separator ":"\<close>

text \<open>
  \<open>strings.Split(msg, ":")\<close> cuts at every occurrence of the separator; the result has
  one more element than there are separators, so it is never empty.
\<close>

fun Split :: "string \<Rightarrow> string list" where
  "Split [] = [[]]"
| "Split (c # cs) =
     (if c = CHR '':'' then [] # Split cs
      else (case Split cs of [] \<Rightarrow> [[c]] | x # xs \<Rightarrow> (c # x) # xs))"

subsection \<open>strconv.ParseInt(s, 10, 64)\<close>

datatype NumError = ErrSyntax | ErrRange

definition isDigit :: "char \<Rightarrow> bool" where
  "isDigit c = (48 \<le> (of_char c :: nat) \<and> (of_char c :: nat) \<le> 57)"

definition maxUint64 :: nat where
  "maxUint64 = 18446744073709551615"

text \<open>
  The digit loop of \<open>ParseUint\<close> in base 10 with 64 bits: a byte that is no digit is a
  syntax error with value 0; an overflow is a range error with the largest value.
\<close>

fun ParseUintLoop :: "nat \<Rightarrow> string \<Rightarrow> nat \<times> NumError option" where
  "ParseUintLoop n [] = (n, None)"
| "ParseUintLoop n (c # cs) =
     (if \<not> isDigit c then (0, Some ErrSyntax)
      else if n \<ge> maxUint64 div 10 + 1 then (maxUint64, Some ErrRange)
      else let n1 = n * 10 + (of_char c - 48)
           in if n1 > maxUint64 then (maxUint64, Some ErrRange)
              else ParseUintLoop n1 cs)"

definition ParseUint :: "string \<Rightarrow> nat \<times> NumError option" where
  "ParseUint s = (if s = [] then (0, Some ErrSyntax) else ParseUintLoop 0 s)"

definition ParseInt :: "string \<Rightarrow> int \<times> NumError option" where
  "ParseInt s0 =
     (if s0 = [] then (0, Some ErrSyntax)
      else let neg = (hd s0 = CHR ''-'');
               s = (if hd s0 = CHR ''+'' \<or> hd s0 = CHR ''-'' then tl s0 else s0);
               (un, err) = ParseUint s
           in if err = Some ErrSyntax then (0, err)
              else if \<not> neg \<and> un \<ge> 9223372036854775808
                then (9223372036854775807, Some ErrRange)
              else if neg \<and> un > 9223372036854775808
                then (- 9223372036854775808, Some ErrRange)
              else (if neg then - int un else int un, None))"

text \<open>\<open>strconv.Atoi\<close> on a 64-bit platform gives the value and error of \<open>ParseInt\<close>.\<close>

definition Atoi :: "string \<Rightarrow> int \<times> NumError option" where
  "Atoi s = ParseInt s"

section \<open>The data of the collector\<close>

text \<open>
  The struct \<open>configuration\<close> of mambo.go; src/mambo.go has the same fields under the
  names \<open>mysql_host\<close>, \<open>mysql_user\<close>, \<open>mysql_pass\<close>, \<open>mysql_db\<close>, \<open>mysql_port\<close>,
  \<open>statsd_host\<close>, \<open>statsd_port\<close>.
\<close>

record configuration =
  mysqlHost :: string
  mysqlUser :: string
  mysqlPass :: string
  mysqlDb :: string
  mysqlPort :: int
  statsdHost :: string
  statsdPort :: int

record command =
  key :: string
  query :: string
  freq :: int

section \<open>Connection strings\<close>

definition statsdURIBuilder :: "configuration \<Rightarrow> string" where
  "statsdURIBuilder config = Sprint [S (statsdHost config), S '':'', I (statsdPort config)]"

definition mysqlURIBuilder :: "configuration \<Rightarrow> string" where
  "mysqlURIBuilder config =
     (if mysqlHost config = []
      then Sprint [S (mysqlUser config), S '':'', S (mysqlPass config), S ''@'', S ''/'',
                   S (mysqlDb config)]
      else Sprint [S (mysqlUser config), S '':'', S (mysqlPass config), S ''@'',
                   S (mysqlHost config), S '':'', I (mysqlPort config), S ''/'',
                   S (mysqlDb config)])"

text \<open>The builders of src/mambo.go, the same code over the renamed fields.\<close>

definition statsdUriBuilder :: "configuration \<Rightarrow> string" where
  "statsdUriBuilder config = Sprint [S (statsdHost config), S '':'', I (statsdPort config)]"

definition mysqlUriBuilder :: "configuration \<Rightarrow> string" where
  "mysqlUriBuilder config =
     (if mysqlHost config = []
      then Sprint [S (mysqlUser config), S '':'', S (mysqlPass config), S ''@'', S ''/'',
                   S (mysqlDb config)]
      else Sprint [S (mysqlUser config), S '':'', S (mysqlPass config), S ''@'',
                   S (mysqlHost config), S '':'', I (mysqlPort config), S ''/'',
                   S (mysqlDb config)])"

section \<open>Effects and outcomes\<close>

text \<open>
  What a call does to the outside is recorded as a list of events, in order. An error
  value is the text of a library error or an error of \<open>strconv\<close>.
\<close>

datatype error = LibError string | NumError string NumError

datatype event =
    Notice string
  | Info string
  | Error error
  | Critical error
  | Send string
  | Inc string int real
  | CloseClient
  | CloseStmt
  | CloseDb
  | Go command

text \<open>
  How a call ends: it returns a value, it panics (which ends the process), it ends the
  process through \<open>os.Exit\<close>, or it waits on a channel for ever.
\<close>

datatype 'a outcome = Return 'a | Panic | Exit int | Block

text \<open>A pointer or interface value returned by a library: \<open>nil\<close> or usable.\<close>

datatype handle = nil | live

fun logError :: "error option \<Rightarrow> event list" where
  "logError None = []"
| "logError (Some e) = [Error e]"

section \<open>The query executor\<close>

text \<open>
  The answers of \<open>database/sql\<close> during one call of \<open>mysqlWorker\<close>: \<open>sql.Open\<close> and
  \<open>db.Prepare\<close> return a pointer and an error, \<open>db.Ping\<close> an error, and
  \<open>QueryRow().Scan(&result)\<close> either an error, leaving \<open>result\<close> as it is, or the
  string it stores in \<open>result\<close>.
\<close>

record database =
  sql_Open :: "string \<Rightarrow> handle \<times> error option"
  db_Ping :: "error option"
  db_Prepare :: "string \<Rightarrow> handle \<times> error option"
  row_Scan :: "error + string"

text \<open>The message put on the channel: \<open>fmt.Sprint(cmd.key, ":", result)\<close>.\<close>

definition encode :: "string \<Rightarrow> string \<Rightarrow> string" where
  "encode k result = Sprint [S k, S '':'', S result]"

text \<open>
  \<open>mysqlWorker\<close> of mambo.go. Every error is logged and the function goes on. A method
  called on a nil \<open>*sql.DB\<close> or \<open>*sql.Stmt\<close> panics; a deferred \<open>Close\<close> of a usable
  handle still runs then.
\<close>

definition mysqlWorker :: "database \<Rightarrow> configuration \<Rightarrow> command \<Rightarrow> event list \<times> unit outcome" where
  "mysqlWorker w config cmd =
     (let connecturi = mysqlURIBuilder config;
          (db, err1) = sql_Open w connecturi;
          l1 = logError err1
      in if db = nil then (l1, Panic)
         else
           let l2 = logError (db_Ping w);
               (stmtOut, err3) = db_Prepare w (query cmd);
               l3 = logError err3
           in if stmtOut = nil then (l1 @ l2 @ l3 @ [CloseDb], Panic)
              else
                let (result, l4) =
                      (case row_Scan w of Inl e \<Rightarrow> ([], [Error e]) | Inr r \<Rightarrow> (r, []));
                    res = encode (key cmd) result
                in (l1 @ l2 @ l3 @ l4 @ [Send res, CloseStmt, CloseDb], Return ()))"



section \<open>The scheduler\<close>

text \<open>
  \<open>controller\<close>: the interval is \<open>time.Millisecond * time.Duration(cmd.freq)\<close>, a
  product of 64-bit integers, and \<open>time.NewTicker\<close> panics on an interval that is not
  positive. Each tick calls \<open>mysqlWorker\<close>; the databases of the ticks observed are the
  list \<open>ws\<close>, after which the controller waits for the next tick.
\<close>

definition Duration :: "int \<Rightarrow> int" where
  "Duration f = sint (word_of_int (1000000 * f) :: 64 word)"

fun ticks :: "configuration \<Rightarrow> command \<Rightarrow> database list \<Rightarrow> event list \<times> unit outcome" where
  "ticks cnf cmd [] = ([], Block)"
| "ticks cnf cmd (w # ws) =
     (case mysqlWorker w cnf cmd of
        (l, Return u) \<Rightarrow> (let (l', r) = ticks cnf cmd ws in (l @ l', r))
      | (l, r) \<Rightarrow> (l, r))"

definition controller :: "command \<Rightarrow> configuration \<Rightarrow> database list \<Rightarrow> event list \<times> unit outcome" where
  "controller cmd cnf ws =
     (let l0 = [Notice (''Query loaded: '' @ query cmd)]
      in if Duration (freq cmd) \<le> 0 then (l0, Panic)
         else let (l, r) = ticks cnf cmd ws in (l0 @ l, r))"

section \<open>The dispatcher\<close>

text \<open>
  The answers of the statsd client library during one call of \<open>statsdSender\<close>:
  \<open>statsd.NewClient\<close> returns a client and an error, \<open>client.Inc\<close> an error.
\<close>

record statsd =
  statsd_NewClient :: "string \<Rightarrow> string \<Rightarrow> handle \<times> error option"
  client_Inc :: "string \<Rightarrow> int \<Rightarrow> real \<Rightarrow> error option"

text \<open>
  The decoding inside \<open>statsdSender\<close>: \<open>arr := strings.Split(msg, ":")\<close>,
  \<open>key := arr[0]\<close>, \<open>value, err := strconv.ParseInt(arr[1], 10, 64)\<close>. Indexing
  \<open>arr[1]\<close> panics when the message has no separator.
\<close>

definition decode :: "string \<Rightarrow> (string \<times> int \<times> error option) outcome" where
  "decode msg =
     (let arr = Split msg
      in if length arr < 2 then Panic
         else let k = arr ! 0;
                  (v, err) = ParseInt (arr ! 1)
              in Return (k, v, map_option (NumError (arr ! 1)) err))"

text \<open>
  \<open>statsdSender\<close> of mambo.go. A method called on a nil client panics, the deferred
  \<open>client.Close()\<close> first of all; with a usable client the deferred \<open>Close\<close> runs on
  every way out.
\<close>

definition statsdSender :: "statsd \<Rightarrow> configuration \<Rightarrow> string \<Rightarrow> event list \<times> unit outcome" where
  "statsdSender w config msg =
     (let (client, err) = statsd_NewClient w (statsdURIBuilder config) [];
          l1 = logError err
      in if client = nil then (l1, Panic)
         else
           (case decode msg of
              Return (k, v, err2) \<Rightarrow>
                (let l2 = logError err2;
                     l3 = logError (client_Inc w k v 1)
                 in (l1 @ l2 @ [Inc k v 1] @ l3 @ [CloseClient], Return ()))
            | _ \<Rightarrow> (l1 @ [CloseClient], Panic)))"

text \<open>
  \<open>statsdSender\<close> of src/mambo.go: the message is logged before the increment, and the
  error of \<open>client.Inc\<close> is dropped.
\<close>

definition statsdSender_src :: "statsd \<Rightarrow> configuration \<Rightarrow> string \<Rightarrow> event list \<times> unit outcome" where
  "statsdSender_src w config msg =
     (let (client, err) = statsd_NewClient w (statsdUriBuilder config) [];
          l1 = logError err
      in if client = nil then (l1, Panic)
         else
           (case decode msg of
              Return (k, v, err2) \<Rightarrow>
                (let l2 = logError err2
                 in (l1 @ l2 @ [Info (''Statsd data flushed: '' @ msg), Inc k v 1, CloseClient],
                     Return ()))
            | _ \<Rightarrow> (l1 @ [CloseClient], Panic)))"

text \<open>
  The loop at the end of \<open>main\<close>: each message received from \<open>results\<close> is handed to
  \<open>statsdSender\<close>; \<open>msgs\<close> are the messages that arrive, after which the loop waits.
  A panic ends the process, so the messages behind it are never handled.
\<close>

fun dispatch :: "(statsd \<Rightarrow> configuration \<Rightarrow> string \<Rightarrow> event list \<times> unit outcome)
    \<Rightarrow> statsd \<Rightarrow> configuration \<Rightarrow> string list \<Rightarrow> event list \<times> unit outcome" where
  "dispatch sender w config [] = ([], Block)"
| "dispatch sender w config (msg # msgs) =
     (case sender w config msg of
        (l, Return u) \<Rightarrow> (let (l', r) = dispatch sender w config msgs in (l @ l', r))
      | (l, r) \<Rightarrow> (l, r))"

text \<open>The increments a call sends to the sink.\<close>

fun increments :: "event list \<Rightarrow> (string \<times> int \<times> real) list" where
  "increments [] = []"
| "increments (Inc k v r # es) = (k, v, r) # increments es"
| "increments (e # es) = increments es"

section \<open>Configuration load\<close>

text \<open>
  What \<open>ini.Load\<close> hands to \<open>configure\<close>: an error, or the sections of the file in
  order. \<open>configure\<close> reads a section through \<open>section.Name()\<close>,
  \<open>section.Key(k).String()\<close> and \<open>section.Key(k).Int()\<close> only, so a section is
  given here by its name and by what the library answers for its keys: \<open>Keys\<close> holds,
  for each key the library finds a value for, the string that
  \<open>section.Key(k).String()\<close> returns. The library looks a key up in the section and,
  for a child section such as \<open>[q.child]\<close>, in the sections above it, and it expands
  the references \<open>%(name)s\<close> of a value; \<open>Keys\<close> is the outcome of both. For a
  section without a section above it and values without references, \<open>Keys\<close> are the
  keys and values written in the section. For a key the library finds no value for,
  \<open>section.Key(k)\<close> is an empty key and \<open>String()\<close> the empty string.
  \<open>section.Key(k).Int()\<close> is the string of \<open>String()\<close> read by \<open>strconv\<close> as a
  decimal integer: the value and the error of \<open>strconv.Atoi\<close>.
\<close>

datatype ini_Section = Section (Name: string) (Keys: "(string \<times> string) list")

definition KeyString :: "ini_Section \<Rightarrow> string \<Rightarrow> string" where
  "KeyString sec k = (case map_of (Keys sec) k of None \<Rightarrow> [] | Some v \<Rightarrow> v)"

definition KeyInt :: "ini_Section \<Rightarrow> string \<Rightarrow> int \<times> NumError option" where
  "KeyInt sec k = Atoi (KeyString sec k)"

text \<open>The zero value of \<open>var cfg configuration\<close>.\<close>

definition zeroConfiguration :: configuration where
  "zeroConfiguration =
     \<lparr>mysqlHost = [], mysqlUser = [], mysqlPass = [], mysqlDb = [], mysqlPort = 0,
      statsdHost = [], statsdPort = 0\<rparr>"

text \<open>
  The branch of \<open>configure\<close> for the section \<open>[config]\<close>, in mambo.go: the error of
  \<open>Int()\<close> is assigned and never read; the sink port is read from the key
  \<open>stats_port\<close>.
\<close>

definition configSection :: "ini_Section \<Rightarrow> configuration" where
  "configSection sec =
     (let mysqlHostc = KeyString sec ''mysql_host'';
          mysqlUserc = KeyString sec ''mysql_user'';
          mysqlPassc = KeyString sec ''mysql_pass'';
          mysqlDbc = KeyString sec ''mysql_db'';
          (mysqlPortc, err) = KeyInt sec ''mysql_port'';
          mysqlPortc = (if mysqlPortc = 0 then 3306 else mysqlPortc);
          statsdHostc = KeyString sec ''statsd_host'';
          (statsdPortc, err) = KeyInt sec ''stats_port'';
          statsdPortc = (if statsdPortc = 0 then 8125 else statsdPortc)
      in \<lparr>mysqlHost = mysqlHostc, mysqlUser = mysqlUserc, mysqlPass = mysqlPassc,
          mysqlDb = mysqlDbc, mysqlPort = mysqlPortc, statsdHost = statsdHostc,
          statsdPort = statsdPortc\<rparr>)"

text \<open>The same branch in src/mambo.go: the sink port is read from \<open>statsd_port\<close>.\<close>

definition configSection_src :: "ini_Section \<Rightarrow> configuration" where
  "configSection_src sec =
     (let mysql_hostc = KeyString sec ''mysql_host'';
          mysql_userc = KeyString sec ''mysql_user'';
          mysql_passc = KeyString sec ''mysql_pass'';
          mysql_dbc = KeyString sec ''mysql_db'';
          (mysql_portc, err) = KeyInt sec ''mysql_port'';
          mysql_portc = (if mysql_portc = 0 then 3306 else mysql_portc);
          statsd_hostc = KeyString sec ''statsd_host'';
          (statsd_portc, err) = KeyInt sec ''statsd_port'';
          statsd_portc = (if statsd_portc = 0 then 8125 else statsd_portc)
      in \<lparr>mysqlHost = mysql_hostc, mysqlUser = mysql_userc, mysqlPass = mysql_passc,
          mysqlDb = mysql_dbc, mysqlPort = mysql_portc, statsdHost = statsd_hostc,
          statsdPort = statsd_portc\<rparr>)"

text \<open>The branch for every other section: a command, with the error of \<open>Int()\<close> dropped.\<close>

definition commandSection :: "ini_Section \<Rightarrow> command" where
  "commandSection sec =
     (let keyc = KeyString sec ''key'';
          queryc = KeyString sec ''query'';
          (freqc, err) = KeyInt sec ''freq''
      in \<lparr>key = keyc, query = queryc, freq = freqc\<rparr>)"

text \<open>
  The loop over the sections, with the configuration and the commands built so far; it
  takes the branch for \<open>[config]\<close> as a parameter, which is all that differs between the
  two files.
\<close>

fun sectionsLoop :: "(ini_Section \<Rightarrow> configuration) \<Rightarrow> ini_Section list
    \<Rightarrow> configuration \<times> command list \<Rightarrow> configuration \<times> command list" where
  "sectionsLoop branch [] st = st"
| "sectionsLoop branch (sec # sections) (cfg, commands) =
     (if Name sec \<noteq> ''DEFAULT''
      then if Name sec = ''config''
           then sectionsLoop branch sections (branch sec, commands)
           else sectionsLoop branch sections (cfg, commands @ [commandSection sec])
      else sectionsLoop branch sections (cfg, commands))"

text \<open>\<open>configure\<close>: a file that does not load is logged and ends the process with code 1.\<close>

definition configure :: "error + ini_Section list \<Rightarrow> event list \<times> (configuration \<times> command list) outcome" where
  "configure load =
     (case load of
        Inl err \<Rightarrow> ([Critical err], Exit 1)
      | Inr sections \<Rightarrow> ([], Return (sectionsLoop configSection sections (zeroConfiguration, []))))"

definition configure_src :: "error + ini_Section list \<Rightarrow> event list \<times> (configuration \<times> command list) outcome" where
  "configure_src load =
     (case load of
        Inl err \<Rightarrow> ([Critical err], Exit 1)
      | Inr sections \<Rightarrow>
          ([], Return (sectionsLoop configSection_src sections (zeroConfiguration, []))))"

section \<open>The main function\<close>

text \<open>
  \<open>main\<close>, from the file name given by the flag \<open>cfg\<close> and what \<open>ini.Load\<close> answers for
  it: one \<open>go controller(...)\<close> for each command, then the dispatcher loop over the
  messages that arrive on \<open>results\<close>.
\<close>

definition main :: "string \<Rightarrow> error + ini_Section list \<Rightarrow> statsd \<Rightarrow> string list \<Rightarrow> event list \<times> unit outcome" where
  "main configfile load w msgs =
     (let l0 = [Notice ''Mambo collector started'',
                Notice (''Loading configuration from '' @ configfile)]
      in case configure load of
           (lc, Return (config, commands)) \<Rightarrow>
             (let (ld, r) = dispatch statsdSender w config msgs
              in (l0 @ lc @ map Go commands @ [Notice ''Data collector running''] @ ld, r))
         | (lc, Exit n) \<Rightarrow> (l0 @ lc, Exit n)
         | (lc, Panic) \<Rightarrow> (l0 @ lc, Panic)
         | (lc, Block) \<Rightarrow> (l0 @ lc, Block))"

definition main_src :: "string \<Rightarrow> error + ini_Section list \<Rightarrow> statsd \<Rightarrow> string list \<Rightarrow> event list \<times> unit outcome" where
  "main_src configfile load w msgs =
     (let l0 = [Notice ''Mambo collector started'',
                Notice (''Loading configuration from '' @ configfile)]
      in case configure_src load of
           (lc, Return (config, commands)) \<Rightarrow>
             (let (ld, r) = dispatch statsdSender_src w config msgs
              in (l0 @ lc @ map Go commands @ [Notice ''Data collector running''] @ ld, r))
         | (lc, Exit n) \<Rightarrow> (l0 @ lc, Exit n)
         | (lc, Panic) \<Rightarrow> (l0 @ lc, Panic)
         | (lc, Block) \<Rightarrow> (l0 @ lc, Block))"

text \<open>The controllers a run starts.\<close>

fun started :: "event list \<Rightarrow> command list" where
  "started [] = []"
| "started (Go c # es) = c # started es"
| "started (e # es) = started es"

text \<open>The sections that the loop turns into commands.\<close>

definition commandSections :: "ini_Section list \<Rightarrow> ini_Section list" where
  "commandSections sections = filter (\<lambda>sec. Name sec \<noteq> ''DEFAULT'' \<and> Name sec \<noteq> ''config'') sections"

section \<open>Example inputs\<close>

text \<open>
  The configuration file of README.md as \<open>ini.Load\<close> returns it (the two commented
  lines give no key), the same file with the sink port set to 9125, and the
  configurations and the first command they give.
\<close>

definition readmeQueries :: "ini_Section list" where
  "readmeQueries =
     [Section ''query1''
        [(''key'', ''mysql.server.query1''), (''query'', ''SELECT 1''), (''freq'', ''1000'')],
      Section ''query2''
        [(''key'', ''mysql.server.query2''), (''query'', ''SELECT 2''), (''freq'', ''500'')],
      Section ''query3''
        [(''key'', ''mysql.server.query3''), (''query'', ''SELECT 3''), (''freq'', ''3000'')]]"

definition readmeConfig :: ini_Section where
  "readmeConfig =
     Section ''config''
       [(''mysql_user'', ''root''), (''mysql_pass'', ''root123''),
        (''mysql_db'', ''information_schema''), (''statsd_host'', ''127.0.0.1''),
        (''statsd_port'', ''8125'')]"


text \<open>
  The file of README.md with the sink port set to 9125, a \<open>[config]\<close> section whose
  ports are no numbers, and one whose ports are too large for 64 bits.
\<close>

definition readme9125Config :: ini_Section where
  "readme9125Config =
     Section ''config''
       [(''mysql_user'', ''root''), (''mysql_pass'', ''root123''),
        (''mysql_db'', ''information_schema''), (''statsd_host'', ''127.0.0.1''),
        (''statsd_port'', ''9125'')]"

definition wordPortsConfig :: ini_Section where
  "wordPortsConfig =
     Section ''config''
       [(''mysql_port'', ''abc''), (''stats_port'', ''81x25''), (''statsd_port'', ''81x25'')]"

definition hugePortsConfig :: ini_Section where
  "hugePortsConfig =
     Section ''config''
       [(''mysql_port'', ''99999999999999999999''),
        (''stats_port'', ''-99999999999999999999''),
        (''statsd_port'', ''99999999999999999999x'')]"

text \<open>
  A section \<open>[q]\<close> and its child \<open>[q.child]\<close>, which has a query of its own and no
  other key: for \<open>key\<close> and \<open>freq\<close> the library answers with the values of
  \<open>[q]\<close>.
\<close>

definition parentSection :: ini_Section where
  "parentSection =
     Section ''q'' [(''key'', ''mysql.q''), (''query'', ''SELECT 1''), (''freq'', ''100'')]"

definition childSection :: ini_Section where
  "childSection =
     Section ''q.child'' [(''key'', ''mysql.q''), (''query'', ''SELECT 2''), (''freq'', ''100'')]"

definition socketConfiguration :: configuration where
  "socketConfiguration =
     \<lparr>mysqlHost = [], mysqlUser = ''root'', mysqlPass = ''root123'',
      mysqlDb = ''information_schema'', mysqlPort = 3306, statsdHost = ''127.0.0.1'',
      statsdPort = 8125\<rparr>"

definition tcpConfiguration :: configuration where
  "tcpConfiguration =
     \<lparr>mysqlHost = ''db1'', mysqlUser = ''root'', mysqlPass = ''root123'',
      mysqlDb = ''information_schema'', mysqlPort = 3307, statsdHost = ''127.0.0.1'',
      statsdPort = 9125\<rparr>"

definition query1 :: command where
  "query1 = \<lparr>key = ''mysql.server.query1'', query = ''SELECT 1'', freq = 1000\<rparr>"

text \<open>
  A database that answers every step, one that is reached but has no row for the
  query, and one whose ping fails while the query still succeeds.
\<close>

definition dbAnswers :: database where
  "dbAnswers =
     \<lparr>sql_Open = (\<lambda>uri. (live, None)), db_Ping = None,
      db_Prepare = (\<lambda>q. (live, None)), row_Scan = Inr ''42''\<rparr>"



text \<open>A sink that takes every increment, and one for which no client can be made.\<close>

definition sinkUp :: statsd where
  "sinkUp =
     \<lparr>statsd_NewClient = (\<lambda>addr prefix. (live, None)),
      client_Inc = (\<lambda>stat value rate. None)\<rparr>"

definition sinkDown :: statsd where
  "sinkDown =
     \<lparr>statsd_NewClient = (\<lambda>addr prefix. (nil, Some (LibError ''no such host''))),
      client_Inc = (\<lambda>stat value rate. None)\<rparr>"

section \<open>Facts about the library functions\<close>

subsection \<open>Decimal digits are read back by the parser\<close>

lemma digit_val: "d < 10 \<Longrightarrow> (of_char (digit d) :: nat) = 48 + d"
  by (simp add: digit_def)

lemma isDigit_digit: "d < 10 \<Longrightarrow> isDigit (digit d)"
  by (simp add: isDigit_def digit_val)

lemma decimal_nonempty: "decimal n \<noteq> []"
  by (subst decimal.simps) simp

lemma decimal_digits: "c \<in> set (decimal n) \<Longrightarrow> isDigit c"
proof (induction n arbitrary: c rule: decimal.induct)
  case (1 n)
  show ?case
  proof (cases "n < 10")
    case True
    with "1.prems" show ?thesis
      by (subst (asm) decimal.simps) (simp add: isDigit_digit)
  next
    case False
    from "1.prems" have "c \<in> set (decimal (n div 10)) \<or> c = digit (n mod 10)"
      using False by (subst (asm) decimal.simps) auto
    then show ?thesis
      using "1.IH" [OF False] by (auto simp: isDigit_digit)
  qed
qed

lemma ParseUintLoop_append:
  "ParseUintLoop n (xs @ ys) =
     (case ParseUintLoop n xs of (m, None) \<Rightarrow> ParseUintLoop m ys | (m, Some e) \<Rightarrow> (m, Some e))"
proof (induction xs arbitrary: n)
  case Nil
  show ?case by simp
next
  case (Cons c cs)
  show ?case
    using Cons.IH [of "n * 10 + (of_char c - 48)"]
    by (simp add: Let_def del: add_diff_assoc add_diff_assoc2 diff_add_assoc)
qed

lemma ParseUintLoop_decimal:
  "n \<le> maxUint64 \<Longrightarrow> ParseUintLoop 0 (decimal n) = (n, None)"
proof (induction n rule: decimal.induct)
  case (1 n)
  show ?case
  proof (cases "n < 10")
    case True
    then have "decimal n = [digit n]" by (subst decimal.simps) simp
    with True show ?thesis
      by (simp add: isDigit_digit digit_val maxUint64_def)
  next
    case False
    then have d: "decimal n = decimal (n div 10) @ [digit (n mod 10)]"
      by (subst decimal.simps) simp
    from "1.prems" have le: "n div 10 \<le> maxUint64" by simp
    have ih: "ParseUintLoop 0 (decimal (n div 10)) = (n div 10, None)"
      using "1.IH" [OF False le] .
    have small: "\<not> maxUint64 div 10 + 1 \<le> n div 10"
      using "1.prems" by (simp add: maxUint64_def)
    have val: "n div 10 * 10 + (of_char (digit (n mod 10)) - 48) = n"
      by (simp add: digit_val)
    show ?thesis
      using small "1.prems"
      by (simp add: d ParseUintLoop_append ih isDigit_digit val Let_def)
  qed
qed

lemma hd_decimal_digit: "isDigit (hd (decimal n))"
  using decimal_digits [of "hd (decimal n)" n] decimal_nonempty [of n] by simp

lemma hd_decimal_no_sign: "hd (decimal n) \<noteq> CHR ''+'' \<and> hd (decimal n) \<noteq> CHR ''-''"
proof -
  have "\<not> isDigit (CHR ''+'')" "\<not> isDigit (CHR ''-'')" by (simp_all add: isDigit_def)
  then show ?thesis using hd_decimal_digit [of n] by metis
qed

lemma ParseInt_itoa:
  assumes "- 9223372036854775808 \<le> i" and "i \<le> 9223372036854775807"
  shows "ParseInt (itoa i) = (i, None)"
proof (cases "i < 0")
  case True
  have le: "nat (- i) \<le> maxUint64" using assms by (simp add: maxUint64_def)
  show ?thesis
    using True assms ParseUintLoop_decimal [OF le] decimal_nonempty [of "nat (- i)"]
    by (simp add: itoa_def ParseInt_def ParseUint_def)
next
  case False
  have le: "nat i \<le> maxUint64" using assms by (simp add: maxUint64_def)
  show ?thesis
    using False assms ParseUintLoop_decimal [OF le] decimal_nonempty [of "nat i"]
      hd_decimal_no_sign [of "nat i"]
    by (simp add: itoa_def ParseInt_def ParseUint_def)
qed

lemma colon_not_digit: "\<not> isDigit (CHR '':'')"
  by (simp add: isDigit_def)

lemma itoa_no_colon: "CHR '':'' \<notin> set (itoa i)"
  using decimal_digits colon_not_digit by (auto simp: itoa_def)

lemma Split_no_colon: "CHR '':'' \<notin> set s \<Longrightarrow> Split s = [s]"
  by (induction s) auto

lemma Split_at_colon: "CHR '':'' \<notin> set a \<Longrightarrow> Split (a @ CHR '':'' # b) = a # Split b"
  by (induction a) auto

lemma Split_nonempty: "Split s \<noteq> []"
  by (induction s) (auto split: list.splits)

subsection \<open>Evaluation on literals\<close>

lemma digit_chars:
  "digit 0 = CHR ''0''" "digit 1 = CHR ''1''" "digit (Suc 0) = CHR ''1''" "digit 2 = CHR ''2''"
  "digit 3 = CHR ''3''" "digit 4 = CHR ''4''" "digit 5 = CHR ''5''" "digit 6 = CHR ''6''"
  "digit 7 = CHR ''7''" "digit 8 = CHR ''8''" "digit 9 = CHR ''9''"
  by (simp_all add: digit_def flip: of_char_eq_iff [where 'a = nat])

lemmas run_defs = itoa_def decimal.simps digit_chars Sprint_def ParseInt_def ParseUint_def
  isDigit_def maxUint64_def Atoi_def KeyInt_def KeyString_def Let_def

subsection \<open>The message format\<close>

lemma encode_eq: "encode k result = k @ CHR '':'' # result"
  by (simp add: encode_def Sprint_def)

lemma decode_well_formed:
  "CHR '':'' \<notin> set k \<Longrightarrow> CHR '':'' \<notin> set r \<Longrightarrow>
   decode (k @ CHR '':'' # r) = Return (k, fst (ParseInt r), map_option (NumError r) (snd (ParseInt r)))"
  by (simp add: decode_def Split_at_colon Split_no_colon split: prod.splits)

subsection \<open>Events\<close>

lemma increments_append: "increments (xs @ ys) = increments xs @ increments ys"
  by (induction xs rule: increments.induct) simp_all

lemma increments_logError: "increments (logError e) = []"
  by (cases e) simp_all



lemma statsdUriBuilder_eq: "statsdUriBuilder config = statsdURIBuilder config"
  by (simp add: statsdUriBuilder_def statsdURIBuilder_def)


subsection \<open>The loop over the sections\<close>

lemma sectionsLoop_commands:
  "snd (sectionsLoop branch sections (cfg, commands))
     = commands @ map commandSection (commandSections sections)"
  by (induction sections arbitrary: cfg commands) (simp_all add: commandSections_def)

lemma sectionsLoop_no_config:
  "\<forall>s \<in> set sections. Name s \<noteq> ''config'' \<Longrightarrow>
   fst (sectionsLoop branch sections (cfg, commands)) = cfg"
  by (induction sections arbitrary: cfg commands) simp_all

lemma sectionsLoop_last_config:
  "Name sec = ''config'' \<Longrightarrow> \<forall>s \<in> set post. Name s \<noteq> ''config'' \<Longrightarrow>
   fst (sectionsLoop branch (pre @ sec # post) (cfg, commands)) = branch sec"
  by (induction pre arbitrary: cfg commands) (simp_all add: sectionsLoop_no_config)

lemma configure_last_config:
  assumes "Name sec = ''config''" and "\<forall>s \<in> set post. Name s \<noteq> ''config''"
  shows "configure (Inr (pre @ sec # post))
      = ([], Return (configSection sec, map commandSection (commandSections (pre @ sec # post))))"
    and "configure_src (Inr (pre @ sec # post))
      = ([], Return (configSection_src sec, map commandSection (commandSections (pre @ sec # post))))"
  using sectionsLoop_last_config [OF assms, of _ pre zeroConfiguration "[]"]
    sectionsLoop_commands [of _ "pre @ sec # post" zeroConfiguration "[]"]
  by (simp_all add: configure_def configure_src_def prod_eq_iff)

lemma KeyInt_absent: "map_of (Keys sec) k = None \<Longrightarrow> KeyInt sec k = (0, Some ErrSyntax)"
  by (simp add: KeyInt_def KeyString_def Atoi_def ParseInt_def)


lemma mysqlPort_configSection:
  "mysqlPort (configSection sec)
     = (if fst (KeyInt sec ''mysql_port'') = 0 then 3306 else fst (KeyInt sec ''mysql_port''))"
  "mysqlPort (configSection_src sec)
     = (if fst (KeyInt sec ''mysql_port'') = 0 then 3306 else fst (KeyInt sec ''mysql_port''))"
  by (simp_all add: configSection_def configSection_src_def Let_def split: prod.splits)

lemma statsdPort_configSection:
  "statsdPort (configSection sec)
     = (if fst (KeyInt sec ''stats_port'') = 0 then 8125 else fst (KeyInt sec ''stats_port''))"
  "statsdPort (configSection_src sec)
     = (if fst (KeyInt sec ''statsd_port'') = 0 then 8125 else fst (KeyInt sec ''statsd_port''))"
  by (simp_all add: configSection_def configSection_src_def Let_def split: prod.splits)

lemma ParseInt_error_value:
  "snd (ParseInt s) = Some ErrSyntax \<Longrightarrow> fst (ParseInt s) = 0"
  "snd (ParseInt s) = Some ErrRange \<Longrightarrow>
     fst (ParseInt s) = 9223372036854775807 \<or> fst (ParseInt s) = - 9223372036854775808"
  by (auto simp: ParseInt_def Let_def split: prod.splits if_splits)

section \<open>The claims\<close>




text \<open>
  C2. The claim is that no message ends the dispatcher loop. In the code a message
  without \<open>:\<close> makes \<open>arr[1]\<close> panic, and so does every message once
  \<open>statsd.NewClient\<close> has failed, since the nil client is used; the loop then handles
  no further message. With the sink up, the message \<open>q1:1\<close> alone is handled and the
  loop waits for the next one, and a value that is no integer is logged and sent as 0.
\<close>

theorem statsdSender_panics:
  "statsdSender sinkUp socketConfiguration ''abc'' = ([CloseClient], Panic)
   \<and> statsdSender_src sinkUp socketConfiguration ''abc'' = ([CloseClient], Panic)
   \<and> dispatch statsdSender sinkUp socketConfiguration [''abc'', ''q1:1''] = ([CloseClient], Panic)
   \<and> dispatch statsdSender sinkUp socketConfiguration [''q1:1''] = ([Inc ''q1'' 1 1, CloseClient], Block)
   \<and> statsdSender sinkUp socketConfiguration ''q1:x''
       = ([Error (NumError ''x'' ErrSyntax), Inc ''q1'' 0 1, CloseClient], Return ())
   \<and> statsdSender sinkDown socketConfiguration ''q1:1'' = ([Error (LibError ''no such host'')], Panic)
   \<and> dispatch statsdSender sinkDown socketConfiguration [''q1:1'', ''q1:1'']
       = ([Error (LibError ''no such host'')], Panic)"
  by (simp add: statsdSender_def statsdSender_src_def sinkUp_def sinkDown_def decode_def
      ParseInt_def ParseUint_def isDigit_def maxUint64_def Let_def)

text \<open>
  C3. The connection string for the data source is exactly
  \<open>user:credential@/database\<close> when the configured host is empty and exactly
  \<open>user:credential@host:port/database\<close> otherwise, the port in decimal; this holds
  for the builder of mambo.go and for the one of src/mambo.go.
\<close>

theorem mysqlURIBuilder_forms:
  "(mysqlHost config = [] \<longrightarrow>
      mysqlURIBuilder config = mysqlUser config @ '':'' @ mysqlPass config @ ''@/'' @ mysqlDb config
      \<and> mysqlUriBuilder config = mysqlUser config @ '':'' @ mysqlPass config @ ''@/'' @ mysqlDb config)
   \<and> (mysqlHost config \<noteq> [] \<longrightarrow>
      mysqlURIBuilder config =
        mysqlUser config @ '':'' @ mysqlPass config @ ''@'' @ mysqlHost config @ '':''
          @ itoa (mysqlPort config) @ ''/'' @ mysqlDb config
      \<and> mysqlUriBuilder config =
        mysqlUser config @ '':'' @ mysqlPass config @ ''@'' @ mysqlHost config @ '':''
          @ itoa (mysqlPort config) @ ''/'' @ mysqlDb config)"
  by (simp add: mysqlURIBuilder_def mysqlUriBuilder_def Sprint_def)

text \<open>
  The two forms on the configuration of README.md and on one with a host.
\<close>

theorem mysqlURIBuilder_forms_witness:
  "mysqlHost socketConfiguration = [] \<and> mysqlHost tcpConfiguration \<noteq> []
   \<and> mysqlURIBuilder socketConfiguration = ''root:root123@/information_schema''
   \<and> mysqlUriBuilder socketConfiguration = ''root:root123@/information_schema''
   \<and> mysqlURIBuilder tcpConfiguration = ''root:root123@db1:3307/information_schema''
   \<and> mysqlUriBuilder tcpConfiguration = ''root:root123@db1:3307/information_schema''"
  using mysqlURIBuilder_forms [of socketConfiguration] mysqlURIBuilder_forms [of tcpConfiguration]
  by (simp add: socketConfiguration_def tcpConfiguration_def itoa_def decimal.simps digit_chars)

text \<open>
  C4, as stated, fails: a name may hold the separator, and the message of the result
  named \<open>a:b\<close> with value 42 is decoded as the name \<open>a\<close> with a value that does not
  parse.
\<close>

theorem encode_decode_counterexample:
  "decode (encode ''a:b'' (itoa 42)) = Return (''a'', 0, Some (NumError ''b'' ErrSyntax))
   \<and> decode (encode ''a:b'' (itoa 42)) \<noteq> Return (''a:b'', 42, None)"
  by (simp add: decode_def encode_eq run_defs)

text \<open>
  C4, amended. For a name without \<open>:\<close> and a value in the 64-bit range, the message
  \<open>name:value\<close> that \<open>mysqlWorker\<close> builds is decoded by \<open>statsdSender\<close>, which cuts
  at every \<open>:\<close> and reads the first two parts, into the same name and value, without
  a parse error.
\<close>

theorem encode_decode:
  assumes "CHR '':'' \<notin> set name" and "- 9223372036854775808 \<le> v" and "v \<le> 9223372036854775807"
  shows "decode (encode name (itoa v)) = Return (name, v, None)"
  using assms by (simp add: encode_eq decode_well_formed itoa_no_colon ParseInt_itoa)

text \<open>
  The result named \<open>mysql.server.query1\<close> with value 42.
\<close>

theorem encode_decode_witness:
  "CHR '':'' \<notin> set ''mysql.server.query1''
   \<and> encode ''mysql.server.query1'' (itoa 42) = ''mysql.server.query1:42''
   \<and> decode (encode ''mysql.server.query1'' (itoa 42)) = Return (''mysql.server.query1'', 42, None)"
  using encode_decode [of "''mysql.server.query1''" 42]
  by (simp add: encode_eq itoa_def decimal.simps digit_chars)



text \<open>
  C6, as stated, fails: the load checks neither the interval nor the name. A section
  \<open>[query1]\<close> with a query and nothing else, and no section above it, gives a command
  with an empty key and the interval 0, on which \<open>controller\<close> panics when it makes
  its ticker.
\<close>

theorem configure_unchecked_counterexample:
  "configure (Inr [Section ''query1'' [(''query'', ''SELECT 1'')]])
     = ([], Return (zeroConfiguration, [\<lparr>key = [], query = ''SELECT 1'', freq = 0\<rparr>]))
   \<and> configure_src (Inr [Section ''query1'' [(''query'', ''SELECT 1'')]])
     = ([], Return (zeroConfiguration, [\<lparr>key = [], query = ''SELECT 1'', freq = 0\<rparr>]))
   \<and> \<not> (0 < freq \<lparr>key = [], query = ''SELECT 1'', freq = 0\<rparr>
          \<and> key \<lparr>key = [], query = ''SELECT 1'', freq = 0\<rparr> \<noteq> [])
   \<and> controller \<lparr>key = [], query = ''SELECT 1'', freq = 0\<rparr> zeroConfiguration [dbAnswers]
     = ([Notice ''Query loaded: SELECT 1''], Panic)"
  by (simp add: configure_def configure_src_def commandSection_def controller_def Duration_def
      run_defs)

text \<open>
  C6, amended. The commands of a loaded file are those of its sections other than
  \<open>DEFAULT\<close> and \<open>config\<close>, one for each, in the order of the file. The key and the
  query of a command are the strings that \<open>section.Key("key").String()\<close> and
  \<open>section.Key("query").String()\<close> return for its section, and its interval is the
  integer that \<open>section.Key("freq").Int()\<close> returns, the error dropped. Neither the
  interval nor the key is checked, and no command is rejected.
\<close>

theorem configure_commands:
  "snd (configure (Inr sections))
     = Return (fst (sectionsLoop configSection sections (zeroConfiguration, [])),
         map commandSection (commandSections sections))
   \<and> snd (configure_src (Inr sections))
     = Return (fst (sectionsLoop configSection_src sections (zeroConfiguration, [])),
         map commandSection (commandSections sections))
   \<and> key (commandSection sec) = KeyString sec ''key''
   \<and> query (commandSection sec) = KeyString sec ''query''
   \<and> freq (commandSection sec) = fst (KeyInt sec ''freq'')
   \<and> length (map commandSection (commandSections sections)) = length (commandSections sections)"
  using sectionsLoop_commands [of _ sections zeroConfiguration "[]"]
  by (simp add: configure_def configure_src_def prod_eq_iff commandSection_def
      split: prod.splits)

text \<open>
  The file of README.md followed by the sections \<open>[q]\<close> and \<open>[q.child]\<close>: five
  commands, the last with the key and the interval that the library answers from
  \<open>[q]\<close>.
\<close>

theorem configure_commands_witness:
  "snd (configure
      (Inr (Section ''DEFAULT'' [] # readmeConfig # readmeQueries @ [parentSection, childSection])))
     = Return (socketConfiguration,
          [query1,
           \<lparr>key = ''mysql.server.query2'', query = ''SELECT 2'', freq = 500\<rparr>,
           \<lparr>key = ''mysql.server.query3'', query = ''SELECT 3'', freq = 3000\<rparr>,
           \<lparr>key = ''mysql.q'', query = ''SELECT 1'', freq = 100\<rparr>,
           \<lparr>key = ''mysql.q'', query = ''SELECT 2'', freq = 100\<rparr>])
   \<and> KeyString childSection ''key'' = ''mysql.q''
   \<and> key (commandSection childSection) = ''mysql.q''
   \<and> freq (commandSection childSection) = 100"
  using configure_commands
    [of "Section ''DEFAULT'' [] # readmeConfig # readmeQueries @ [parentSection, childSection]"
        childSection]
  by (simp add: readmeConfig_def readmeQueries_def parentSection_def childSection_def
      socketConfiguration_def query1_def configSection_def commandSection_def
      commandSections_def run_defs)

text \<open>
  C7. When the configuration file does not load, \<open>main\<close> logs the error and the
  process ends with exit code 1: no controller is started and the dispatcher loop is
  never entered, so nothing is sent to the sink.
\<close>

theorem main_load_failure:
  "main configfile (Inl err) w msgs
     = ([Notice ''Mambo collector started'',
         Notice (''Loading configuration from '' @ configfile), Critical err], Exit 1)
   \<and> main_src configfile (Inl err) w msgs
     = ([Notice ''Mambo collector started'',
         Notice (''Loading configuration from '' @ configfile), Critical err], Exit 1)
   \<and> started (fst (main configfile (Inl err) w msgs)) = []
   \<and> started (fst (main_src configfile (Inl err) w msgs)) = []
   \<and> increments (fst (main configfile (Inl err) w msgs)) = []
   \<and> increments (fst (main_src configfile (Inl err) w msgs)) = []
   \<and> (1::int) \<noteq> 0"
  by (simp add: main_def main_src_def configure_def configure_src_def)

text \<open>
  C8. For a message \<open>name:value\<close> with a name without \<open>:\<close> and the decimal text of
  a 64-bit integer, and a sink for which a client is made, \<open>statsdSender\<close> sends
  exactly one increment: of the counter \<open>name\<close>, by \<open>value\<close>, at the rate 1.0; this
  holds for mambo.go and for src/mambo.go.
\<close>

theorem statsdSender_one_increment:
  assumes "fst (statsd_NewClient w (statsdURIBuilder config) []) = live"
    and "CHR '':'' \<notin> set name"
    and "- 9223372036854775808 \<le> v" and "v \<le> 9223372036854775807"
  shows "increments (fst (statsdSender w config (name @ '':'' @ itoa v))) = [(name, v, 1)]
    \<and> snd (statsdSender w config (name @ '':'' @ itoa v)) = Return ()
    \<and> increments (fst (statsdSender_src w config (name @ '':'' @ itoa v))) = [(name, v, 1)]
    \<and> snd (statsdSender_src w config (name @ '':'' @ itoa v)) = Return ()"
proof -
  have d: "decode (name @ CHR '':'' # itoa v) = Return (name, v, None)"
    using assms by (simp add: decode_well_formed itoa_no_colon ParseInt_itoa)
  obtain err where c: "statsd_NewClient w (statsdURIBuilder config) [] = (live, err)"
    using assms(1) by (cases "statsd_NewClient w (statsdURIBuilder config) []") simp
  have "statsdSender w config (name @ '':'' @ itoa v)
      = (logError err @ [Inc name v 1] @ logError (client_Inc w name v 1) @ [CloseClient], Return ())"
    by (simp add: statsdSender_def c d Let_def)
  moreover have "statsdSender_src w config (name @ '':'' @ itoa v)
      = (logError err @ [Info (''Statsd data flushed: '' @ name @ '':'' @ itoa v), Inc name v 1, CloseClient],
         Return ())"
    by (simp add: statsdSender_src_def statsdUriBuilder_eq c d Let_def)
  ultimately show ?thesis
    by (simp add: increments_append increments_logError)
qed

text \<open>
  The message \<open>q1:1\<close>.
\<close>

theorem statsdSender_one_increment_witness:
  "fst (statsd_NewClient sinkUp (statsdURIBuilder socketConfiguration) []) = live
   \<and> CHR '':'' \<notin> set ''q1''
   \<and> ''q1'' @ '':'' @ itoa 1 = ''q1:1''
   \<and> increments (fst (statsdSender sinkUp socketConfiguration ''q1:1'')) = [(''q1'', 1, 1)]
   \<and> snd (statsdSender sinkUp socketConfiguration ''q1:1'') = Return ()
   \<and> increments (fst (statsdSender_src sinkUp socketConfiguration ''q1:1'')) = [(''q1'', 1, 1)]
   \<and> snd (statsdSender_src sinkUp socketConfiguration ''q1:1'') = Return ()"
  using statsdSender_one_increment [of sinkUp socketConfiguration "''q1''" 1]
  by (simp add: sinkUp_def itoa_def decimal.simps digit_chars)

text \<open>
  C9. The two loaders differ: for the file of README.md with \<open>statsd_port\<close> set to
  9125, \<open>configure\<close> of mambo.go, which reads \<open>stats_port\<close>, gives the sink port
  8125, and \<open>configure\<close> of src/mambo.go gives 9125.
\<close>

theorem configure_differ:
  "\<exists>sections cfg commands cfg' commands'.
     configure (Inr sections) = ([], Return (cfg, commands))
     \<and> configure_src (Inr sections) = ([], Return (cfg', commands'))
     \<and> KeyString (hd sections) ''statsd_port'' = ''9125''
     \<and> statsdPort cfg = 8125 \<and> statsdPort cfg' = 9125
     \<and> statsdPort cfg \<noteq> statsdPort cfg'"
proof -
  have "configure (Inr [readme9125Config]) = ([], Return (configSection readme9125Config, []))"
    "configure_src (Inr [readme9125Config]) = ([], Return (configSection_src readme9125Config, []))"
    by (simp_all add: configure_def configure_src_def readme9125Config_def)
  moreover have "statsdPort (configSection readme9125Config) = 8125"
    "statsdPort (configSection_src readme9125Config) = 9125"
    "KeyString readme9125Config ''statsd_port'' = ''9125''"
    by (simp_all add: statsdPort_configSection readme9125Config_def run_defs)
  ultimately show ?thesis
    by (intro exI [of _ "[readme9125Config]"] exI [of _ "configSection readme9125Config"]
        exI [of _ "configSection_src readme9125Config"] exI [of _ "[]"]) simp
qed

text \<open>
  C10, as stated, fails: a value that \<open>strconv\<close> rejects as out of range does not
  read as 0 but as a bound of the 64-bit range, and that bound becomes the port. This
  happens for \<open>99999999999999999999\<close>, and also for \<open>99999999999999999999x\<close>, where
  the overflow is met before the letter.
\<close>

theorem configure_port_error_counterexample:
  "map_of (Keys hugePortsConfig) ''mysql_port'' = Some ''99999999999999999999''
   \<and> KeyInt hugePortsConfig ''mysql_port'' = (9223372036854775807, Some ErrRange)
   \<and> map_of (Keys hugePortsConfig) ''statsd_port'' = Some ''99999999999999999999x''
   \<and> KeyInt hugePortsConfig ''statsd_port'' = (9223372036854775807, Some ErrRange)
   \<and> configure (Inr [hugePortsConfig])
     = ([], Return (\<lparr>mysqlHost = [], mysqlUser = [], mysqlPass = [], mysqlDb = [],
          mysqlPort = 9223372036854775807, statsdHost = [],
          statsdPort = - 9223372036854775808\<rparr>, []))
   \<and> configure_src (Inr [hugePortsConfig])
     = ([], Return (\<lparr>mysqlHost = [], mysqlUser = [], mysqlPass = [], mysqlDb = [],
          mysqlPort = 9223372036854775807, statsdHost = [],
          statsdPort = 9223372036854775807\<rparr>, []))"
  by (simp add: configure_def configure_src_def hugePortsConfig_def configSection_def
      configSection_src_def KeyInt_def KeyString_def Atoi_def ParseInt_def ParseUint_def
      isDigit_def maxUint64_def Let_def)

text \<open>
  C10, amended. The error of reading a port is ignored and the load returns. A value
  rejected with a syntax error reads as 0, exactly as an absent key does, and the port
  is the default, 3306 or 8125. A value rejected as out of range reads as the largest
  or the smallest 64-bit integer, and that is the port.
\<close>

theorem configure_port_error:
  assumes "Name sec = ''config''" and "\<forall>s \<in> set post. Name s \<noteq> ''config''"
  shows "configure (Inr (pre @ sec # post))
        = ([], Return (configSection sec, map commandSection (commandSections (pre @ sec # post))))
    \<and> configure_src (Inr (pre @ sec # post))
        = ([], Return (configSection_src sec, map commandSection (commandSections (pre @ sec # post))))
    \<and> (map_of (Keys sec) k = None \<longrightarrow> KeyInt sec k = (0, Some ErrSyntax))
    \<and> (snd (KeyInt sec k) = Some ErrSyntax \<longrightarrow> fst (KeyInt sec k) = 0)
    \<and> (snd (KeyInt sec k) = Some ErrRange \<longrightarrow>
          fst (KeyInt sec k) = 9223372036854775807 \<or> fst (KeyInt sec k) = - 9223372036854775808)
    \<and> (snd (KeyInt sec ''mysql_port'') = Some ErrSyntax \<longrightarrow>
          mysqlPort (configSection sec) = 3306 \<and> mysqlPort (configSection_src sec) = 3306)
    \<and> (snd (KeyInt sec ''stats_port'') = Some ErrSyntax \<longrightarrow> statsdPort (configSection sec) = 8125)
    \<and> (snd (KeyInt sec ''statsd_port'') = Some ErrSyntax \<longrightarrow>
          statsdPort (configSection_src sec) = 8125)
    \<and> (snd (KeyInt sec ''mysql_port'') = Some ErrRange \<longrightarrow>
          mysqlPort (configSection sec) = fst (KeyInt sec ''mysql_port'')
          \<and> mysqlPort (configSection_src sec) = fst (KeyInt sec ''mysql_port''))
    \<and> (snd (KeyInt sec ''stats_port'') = Some ErrRange \<longrightarrow>
          statsdPort (configSection sec) = fst (KeyInt sec ''stats_port''))
    \<and> (snd (KeyInt sec ''statsd_port'') = Some ErrRange \<longrightarrow>
          statsdPort (configSection_src sec) = fst (KeyInt sec ''statsd_port''))"
proof -
  have syn: "\<And>k. snd (KeyInt sec k) = Some ErrSyntax \<Longrightarrow> fst (KeyInt sec k) = 0"
    by (simp add: KeyInt_def Atoi_def ParseInt_error_value)
  have rng: "\<And>k. snd (KeyInt sec k) = Some ErrRange \<Longrightarrow>
      fst (KeyInt sec k) = 9223372036854775807 \<or> fst (KeyInt sec k) = - 9223372036854775808"
    using ParseInt_error_value(2) by (simp add: KeyInt_def Atoi_def)
  have nz: "\<And>k. snd (KeyInt sec k) = Some ErrRange \<Longrightarrow> fst (KeyInt sec k) \<noteq> 0"
    using rng by fastforce
  show ?thesis
    using configure_last_config [OF assms, of pre] syn rng nz
    by (simp add: mysqlPort_configSection statsdPort_configSection KeyInt_absent)
qed

text \<open>
  A section whose ports are no numbers, and one whose ports are out of range.
\<close>

theorem configure_port_error_witness:
  "snd (KeyInt wordPortsConfig ''mysql_port'') = Some ErrSyntax
   \<and> snd (KeyInt wordPortsConfig ''stats_port'') = Some ErrSyntax
   \<and> snd (KeyInt wordPortsConfig ''statsd_port'') = Some ErrSyntax
   \<and> map_of (Keys wordPortsConfig) ''mysql_host'' = None
   \<and> mysqlPort (configSection wordPortsConfig) = 3306
   \<and> mysqlPort (configSection_src wordPortsConfig) = 3306
   \<and> statsdPort (configSection wordPortsConfig) = 8125
   \<and> statsdPort (configSection_src wordPortsConfig) = 8125
   \<and> snd (configure (Inr [wordPortsConfig])) = Return (configSection wordPortsConfig, [])
   \<and> snd (KeyInt hugePortsConfig ''mysql_port'') = Some ErrRange
   \<and> snd (KeyInt hugePortsConfig ''stats_port'') = Some ErrRange
   \<and> snd (KeyInt hugePortsConfig ''statsd_port'') = Some ErrRange
   \<and> mysqlPort (configSection hugePortsConfig) = 9223372036854775807
   \<and> statsdPort (configSection hugePortsConfig) = - 9223372036854775808
   \<and> statsdPort (configSection_src hugePortsConfig) = 9223372036854775807"
proof -
  have w: "KeyInt wordPortsConfig ''mysql_port'' = (0, Some ErrSyntax)"
    "KeyInt wordPortsConfig ''stats_port'' = (0, Some ErrSyntax)"
    "KeyInt wordPortsConfig ''statsd_port'' = (0, Some ErrSyntax)"
    "map_of (Keys wordPortsConfig) ''mysql_host'' = None"
    "Name wordPortsConfig = ''config''"
    by (simp_all add: wordPortsConfig_def KeyInt_def KeyString_def Atoi_def ParseInt_def
        ParseUint_def isDigit_def maxUint64_def Let_def)
  have h: "KeyInt hugePortsConfig ''mysql_port'' = (9223372036854775807, Some ErrRange)"
    "KeyInt hugePortsConfig ''stats_port'' = (- 9223372036854775808, Some ErrRange)"
    "KeyInt hugePortsConfig ''statsd_port'' = (9223372036854775807, Some ErrRange)"
    "Name hugePortsConfig = ''config''"
    by (simp_all add: hugePortsConfig_def KeyInt_def KeyString_def Atoi_def ParseInt_def
        ParseUint_def isDigit_def maxUint64_def Let_def)
  show ?thesis
    using configure_port_error [of wordPortsConfig "[]" "[]" "''mysql_host''"]
      configure_port_error [of hugePortsConfig "[]" "[]" "''mysql_port''"]
    by (simp add: w h commandSections_def)
qed

end
